theory Spec2Isabelle
  imports Main
begin

section \<open>Values, errors and the console\<close>

text \<open>
  The node-flow code of \<^verbatim>\<open>src/lib/nodeflow\<close> moves values of TypeScript type
  \<^verbatim>\<open>any\<close> between key/value objects. The only thing the code of \<^verbatim>\<open>NodeBase.ts\<close>
  ever asks of such a value is whether it is \<^verbatim>\<open>undefined\<close>, so a value is either
  \<^verbatim>\<open>undefined\<close> or some other value of an arbitrary type \<open>'v\<close>.
\<close>

datatype 'v jsval = JSUndefined | JSValue 'v

text \<open>
  A \<^verbatim>\<open>Record<string, any>\<close> (\<^verbatim>\<open>NodeInput\<close>, \<^verbatim>\<open>NodeOutput\<close>) is a finite map from
  its own property names to values. A key may be present and hold \<^verbatim>\<open>undefined\<close>
  (\<open>Some JSUndefined\<close>), which differs from an absent key (\<open>None\<close>) for the spread
  \<^verbatim>\<open>{ ...input }\<close> but not for the read \<^verbatim>\<open>obj[key]\<close>. Property names are taken not to
  collide with the members every object inherits from \<^verbatim>\<open>Object.prototype\<close>.
\<close>

type_synonym 'v js_object = "string \<rightharpoonup> 'v jsval"

definition prop_get :: "'v js_object \<Rightarrow> string \<Rightarrow> 'v jsval" where
  \<comment> \<open>the property read \<^verbatim>\<open>obj[key]\<close>\<close>
  "prop_get obj key = (case obj key of None \<Rightarrow> JSUndefined | Some v \<Rightarrow> v)"

datatype error = Error (message: string)

text \<open>
  Every \<^verbatim>\<open>console.*\<close> call site of the modelled code is one constructor, carrying the
  values interpolated into the message of that call site.
\<close>

datatype diagnostic =
    MissingInput string string
    \<comment> \<open>\<^verbatim>\<open>Node ${id}: Required input '${fieldName}' not found in Input\<close>\<close>
  | MissingCache string string string
    \<comment> \<open>\<^verbatim>\<open>Node ${id}: Required input '${workflowFieldName}' (mapped to node field '${nodeFieldName}') not found in cache\<close>\<close>
  | ToolClassNotFound string
    \<comment> \<open>the warning of \<^verbatim>\<open>initializeTools\<close> when the registry has no entry for the name\<close>
  | ToolLookupFailed error
    \<comment> \<open>the warning of \<^verbatim>\<open>initializeTools\<close> when the registry lookup throws\<close>
  | BeforeExecuteLog string
    \<comment> \<open>\<^verbatim>\<open>Node ${id}: Processing workflow beforeExecute\<close>\<close>
  | AfterExecuteLog string
    \<comment> \<open>\<^verbatim>\<open>Node ${id}: Processing workflow afterExecute\<close>\<close>
  | MethodLookupFailed string
    \<comment> \<open>\<^verbatim>\<open>Method lookup failed: ${methodName} not found in ...\<close>\<close>
  | AvailableMethods "string list"
    \<comment> \<open>\<^verbatim>\<open>console.log("Available methods:", [...])\<close>\<close>
  | HandledError string error string
    \<comment> \<open>what \<^verbatim>\<open>handleError(error, methodName)\<close> logs for a tool type\<close>

text \<open>
  Everything outside the execution context that a step may touch: the console, and an
  environment \<open>'s\<close> for whatever overriding hooks and tool methods read and write
  (node state, databases, remote services).
\<close>

record 's world =
  console :: "diagnostic list"
  env :: 's

definition console_emit :: "diagnostic \<Rightarrow> 's world \<Rightarrow> 's world" where
  "console_emit d w = w\<lparr>console := console w @ [d]\<rparr>"

text \<open>An \<^verbatim>\<open>async\<close> method that may reject: its outcome and the world it leaves.\<close>

type_synonym ('a, 's) async = "'s world \<Rightarrow> (error + 'a) \<times> 's world"

section \<open>The execution context\<close>

text \<open>
  Modelled from the spec: \<^verbatim>\<open>NodeContext\<close> (\<^verbatim>\<open>src/lib/nodeflow/NodeContext.ts\<close> is not
  among the sources). Section 4.1 of the specification gives it as three independent
  key \<open>\<rightarrow>\<close> value stores, with \<^verbatim>\<open>hasInput\<close>/\<^verbatim>\<open>getInput\<close>, \<^verbatim>\<open>hasCache\<close>/\<^verbatim>\<open>getCache\<close>/\<^verbatim>\<open>setCache\<close>
  and \<^verbatim>\<open>setOutput\<close>/\<^verbatim>\<open>getOutput\<close>, the getters returning \<^verbatim>\<open>value|undefined\<close> and nothing
  but the setters changing the stores.
\<close>

record 'v NodeContext =
  inputStore :: "'v js_object"
  cacheStore :: "'v js_object"
  outputStore :: "'v js_object"

definition hasInput :: "'v NodeContext \<Rightarrow> string \<Rightarrow> bool" where
  \<comment> \<open>Modelled from the spec: \<^verbatim>\<open>hasInput(key) -> bool\<close>\<close>
  "hasInput ctx key = (inputStore ctx key \<noteq> None)"

definition getInput :: "'v NodeContext \<Rightarrow> string \<Rightarrow> 'v jsval" where
  \<comment> \<open>Modelled from the spec: \<^verbatim>\<open>getInput(key) -> value|undefined\<close>\<close>
  "getInput ctx key = prop_get (inputStore ctx) key"

definition hasCache :: "'v NodeContext \<Rightarrow> string \<Rightarrow> bool" where
  \<comment> \<open>Modelled from the spec: \<^verbatim>\<open>hasCache(key) -> bool\<close>\<close>
  "hasCache ctx key = (cacheStore ctx key \<noteq> None)"

definition getCache :: "'v NodeContext \<Rightarrow> string \<Rightarrow> 'v jsval" where
  \<comment> \<open>Modelled from the spec: \<^verbatim>\<open>getCache(key) -> value|undefined\<close>\<close>
  "getCache ctx key = prop_get (cacheStore ctx) key"

definition setCache :: "string \<Rightarrow> 'v jsval \<Rightarrow> 'v NodeContext \<Rightarrow> 'v NodeContext" where
  \<comment> \<open>Modelled from the spec: \<^verbatim>\<open>setCache(key, value)\<close>\<close>
  "setCache key v ctx = ctx\<lparr>cacheStore := (cacheStore ctx)(key \<mapsto> v)\<rparr>"

definition setOutput :: "string \<Rightarrow> 'v jsval \<Rightarrow> 'v NodeContext \<Rightarrow> 'v NodeContext" where
  \<comment> \<open>Modelled from the spec: \<^verbatim>\<open>setOutput(key, value)\<close>\<close>
  "setOutput key v ctx = ctx\<lparr>outputStore := (outputStore ctx)(key \<mapsto> v)\<rparr>"

definition getOutput :: "'v NodeContext \<Rightarrow> string \<Rightarrow> 'v jsval" where
  \<comment> \<open>Modelled from the spec: \<^verbatim>\<open>getOutput(key) -> value|undefined\<close>\<close>
  "getOutput ctx key = prop_get (outputStore ctx) key"

section \<open>Tool classes\<close>

text \<open>
  A tool class (\<^verbatim>\<open>typeof NodeTool\<close>) is an object of static members. \<open>props\<close> is the
  property read \<^verbatim>\<open>(this as any)[name]\<close>, which sees inherited statics as well;
  \<open>ownPropertyNames\<close> is \<^verbatim>\<open>Object.getOwnPropertyNames(this)\<close>. The base class
  \<^verbatim>\<open>NodeTool\<close> is not among the sources: its \<^verbatim>\<open>logExecution\<close> is a field here, so that
  nothing is assumed about it.
\<close>

datatype ('v, 's) member =
    NonCallable
  | Callable "'v jsval list \<Rightarrow> ('v jsval, 's) async"

record ('v, 's) ToolClass =
  toolType :: string
  props :: "string \<rightharpoonup> ('v, 's) member"
  ownPropertyNames :: "string list"
  logExecution :: "string \<Rightarrow> 'v jsval list \<Rightarrow> (unit, 's) async"

definition getToolType :: "('v, 's) ToolClass \<Rightarrow> string" where
  "getToolType tc = toolType tc"

section \<open>NodeBase\<close>

text \<open>
  Modelled from the spec: the enumerations \<^verbatim>\<open>NodeCategory\<close> and \<^verbatim>\<open>NodeExecutionStatus\<close>
  and the shape of \<^verbatim>\<open>NodeConfig\<close> and \<^verbatim>\<open>NodeExecutionResult\<close> (\<^verbatim>\<open>types.ts\<close> is not among
  the sources); section 3 of the specification lists their members, and \<^verbatim>\<open>NodeBase.ts\<close>
  shows which fields it reads and writes. The fields \<^verbatim>\<open>input\<close>, \<^verbatim>\<open>output\<close> and \<^verbatim>\<open>error\<close> of a
  result are \<open>resultInput\<close>, \<open>resultOutput\<close> and \<open>resultError\<close>; its two timestamps are
  left out.
\<close>

datatype NodeCategory = ENTRY | MIDDLE | EXIT | AFTER

datatype NodeExecutionStatus = RUNNING | COMPLETED | FAILED

record NodeConfig =
  config_id :: string
  config_name :: string
  config_next :: "string list option"
  config_initParams :: "string list option"
  config_inputFields :: "string list option"
  config_outputFields :: "string list option"
  config_inputMapping :: "(string \<rightharpoonup> string) option"

record NodeParams =
  initParams :: "string list"
  inputFields :: "string list"
  outputFields :: "string list"
  inputMapping :: "string \<rightharpoonup> string"

record ('v, 's) NodeBase =
  node_id :: string
  node_name :: string
  category :: NodeCategory
  next_ids :: "string list"
  toolClass :: "('v, 's) ToolClass option"
  params :: NodeParams

record 'v NodeExecutionResult =
  nodeId :: string
  status :: NodeExecutionStatus
  resultInput :: "'v js_object"
  resultOutput :: "'v js_object option"
  resultError :: "error option"

definition getInitParams :: "('v, 's) NodeBase \<Rightarrow> string list" where
  "getInitParams node = initParams (params node)"

definition getInputFields :: "('v, 's) NodeBase \<Rightarrow> string list" where
  "getInputFields node = inputFields (params node)"

definition getOutputFields :: "('v, 's) NodeBase \<Rightarrow> string list" where
  "getOutputFields node = outputFields (params node)"

definition getName :: "('v, 's) NodeBase \<Rightarrow> string" where
  "getName node = node_name node"

subsection \<open>resolveInput\<close>

text \<open>
  \<^verbatim>\<open>inputMapping[workflowFieldName] || workflowFieldName\<close>: the mapped name, or the
  field name itself when there is no entry or the entry is the empty string.
\<close>

definition nodeFieldName :: "(string \<rightharpoonup> string) \<Rightarrow> string \<Rightarrow> string" where
  "nodeFieldName mapping workflowFieldName =
     (case mapping workflowFieldName of
        None \<Rightarrow> workflowFieldName
      | Some n \<Rightarrow> if n = [] then workflowFieldName else n)"

text \<open>The first loop of \<^verbatim>\<open>resolveInput\<close>, over \<^verbatim>\<open>initParams\<close>.\<close>

fun resolveInitParams ::
  "string \<Rightarrow> 'v NodeContext \<Rightarrow> string list \<Rightarrow> 'v js_object \<Rightarrow> 's world
    \<Rightarrow> 'v js_object \<times> 's world" where
  "resolveInitParams nid ctx [] resolved w = (resolved, w)"
| "resolveInitParams nid ctx (fieldName # rest) resolved w =
     (if hasInput ctx fieldName
      then resolveInitParams nid ctx rest (resolved(fieldName \<mapsto> getInput ctx fieldName)) w
      else resolveInitParams nid ctx rest resolved (console_emit (MissingInput nid fieldName) w))"

text \<open>The second loop, over \<^verbatim>\<open>inputFields\<close>, with the field mapping.\<close>

fun resolveInputFields ::
  "string \<Rightarrow> (string \<rightharpoonup> string) \<Rightarrow> 'v NodeContext \<Rightarrow> string list \<Rightarrow> 'v js_object \<Rightarrow> 's world
    \<Rightarrow> 'v js_object \<times> 's world" where
  "resolveInputFields nid mapping ctx [] resolved w = (resolved, w)"
| "resolveInputFields nid mapping ctx (workflowFieldName # rest) resolved w =
     (if hasCache ctx workflowFieldName
      then resolveInputFields nid mapping ctx rest
             (resolved(nodeFieldName mapping workflowFieldName \<mapsto> getCache ctx workflowFieldName)) w
      else resolveInputFields nid mapping ctx rest resolved
             (console_emit (MissingCache nid workflowFieldName
                              (nodeFieldName mapping workflowFieldName)) w))"

text \<open>
  \<^verbatim>\<open>resolveInput\<close> has no \<^verbatim>\<open>throw\<close> and calls only the readers of the context, so it
  yields the resolved input, the context as it leaves it, and the world (the console).
\<close>

definition resolveInput ::
  "('v, 's) NodeBase \<Rightarrow> 'v NodeContext \<Rightarrow> 's world
    \<Rightarrow> 'v js_object \<times> 'v NodeContext \<times> 's world" where
  "resolveInput node ctx w =
     (let (resolved1, w1) = resolveInitParams (node_id node) ctx (getInitParams node) Map.empty w;
          (resolved2, w2) = resolveInputFields (node_id node) (inputMapping (params node)) ctx
                              (getInputFields node) resolved1 w1
      in (resolved2, ctx, w2))"

subsection \<open>publishOutput\<close>

text \<open>The closure \<^verbatim>\<open>storeData\<close>: the \<^verbatim>\<open>switch\<close> on the node's category.\<close>

definition storeData ::
  "('v, 's) NodeBase \<Rightarrow> string \<Rightarrow> 'v jsval \<Rightarrow> 'v NodeContext \<Rightarrow> 'v NodeContext" where
  "storeData node key v ctx =
     (case category node of
        EXIT \<Rightarrow> setOutput key v ctx
      | _ \<Rightarrow> setCache key v ctx)"

text \<open>The loop of \<^verbatim>\<open>publishOutput\<close> over \<^verbatim>\<open>outputFields\<close>.\<close>

fun publishOutputFields ::
  "('v, 's) NodeBase \<Rightarrow> 'v js_object \<Rightarrow> string list \<Rightarrow> 'v NodeContext \<Rightarrow> 'v NodeContext" where
  "publishOutputFields node out [] ctx = ctx"
| "publishOutputFields node out (fieldName # rest) ctx =
     (if prop_get out fieldName \<noteq> JSUndefined
      then publishOutputFields node out rest (storeData node fieldName (prop_get out fieldName) ctx)
      else publishOutputFields node out rest ctx)"

definition publishOutput ::
  "('v, 's) NodeBase \<Rightarrow> 'v js_object \<Rightarrow> 'v NodeContext \<Rightarrow> 'v NodeContext" where
  "publishOutput node out ctx = publishOutputFields node out (getOutputFields node) ctx"

subsection \<open>The hooks and the default call method\<close>

definition NodeBase_beforeExecute :: "('v, 's) NodeBase \<Rightarrow> 'v js_object \<Rightarrow> (unit, 's) async" where
  "NodeBase_beforeExecute node inp w = (Inr (), console_emit (BeforeExecuteLog (node_id node)) w)"

definition NodeBase_afterExecute :: "('v, 's) NodeBase \<Rightarrow> 'v js_object \<Rightarrow> (unit, 's) async" where
  "NodeBase_afterExecute node out w = (Inr (), console_emit (AfterExecuteLog (node_id node)) w)"

text \<open>The loop of the default \<^verbatim>\<open>_call\<close> over \<^verbatim>\<open>outputFields\<close>.\<close>

fun NodeBase_call_fields :: "'v js_object \<Rightarrow> string list \<Rightarrow> 'v js_object \<Rightarrow> 'v js_object" where
  "NodeBase_call_fields inp [] out = out"
| "NodeBase_call_fields inp (field # rest) out =
     (if prop_get inp field \<noteq> JSUndefined
      then NodeBase_call_fields inp rest (out(field \<mapsto> prop_get inp field))
      else NodeBase_call_fields inp rest out)"

definition NodeBase_call ::
  "('v, 's) NodeBase \<Rightarrow> 'v js_object \<Rightarrow> ('v js_object, 's) async" where
  "NodeBase_call node inp w =
     (if length (getOutputFields node) = 0 then (Inr inp, w)
      else (Inr (NodeBase_call_fields inp (getOutputFields node) Map.empty), w))"

text \<open>
  What a concrete node class supplies or overrides: its default category, the two hooks
  and \<^verbatim>\<open>_call\<close> (here \<open>call\<close>), each receiving the node (\<^verbatim>\<open>this\<close>).
\<close>

record ('v, 's) NodeClass =
  getDefaultCategory :: NodeCategory
  beforeExecute :: "('v, 's) NodeBase \<Rightarrow> 'v js_object \<Rightarrow> (unit, 's) async"
  call :: "('v, 's) NodeBase \<Rightarrow> 'v js_object \<Rightarrow> ('v js_object, 's) async"
  afterExecute :: "('v, 's) NodeBase \<Rightarrow> 'v js_object \<Rightarrow> (unit, 's) async"

text \<open>\<^verbatim>\<open>UserInputNode\<close> overrides the three methods by calls to \<^verbatim>\<open>super\<close>.\<close>

definition UserInputNode :: "('v, 's) NodeClass" where
  "UserInputNode =
     \<lparr>getDefaultCategory = ENTRY,
      beforeExecute = NodeBase_beforeExecute,
      call = NodeBase_call,
      afterExecute = NodeBase_afterExecute\<rparr>"

subsection \<open>execute\<close>

text \<open>
  The \<^verbatim>\<open>try\<close> block of \<^verbatim>\<open>execute\<close>: it works on the result under construction, the
  context and the world, and either completes or throws, leaving the three as they are
  at that point.
\<close>

definition execute_try ::
  "('v, 's) NodeClass \<Rightarrow> ('v, 's) NodeBase
    \<Rightarrow> 'v NodeExecutionResult \<times> 'v NodeContext \<times> 's world
    \<Rightarrow> (error + unit) \<times> 'v NodeExecutionResult \<times> 'v NodeContext \<times> 's world" where
  "execute_try cls node st =
     (case st of (result, ctx, w) \<Rightarrow>
      (case resolveInput node ctx w of (resolvedNodeInput, ctx1, w1) \<Rightarrow>
       (case beforeExecute cls node resolvedNodeInput w1 of
          (Inl e, w2) \<Rightarrow> (Inl e, result, ctx1, w2)
        | (Inr _, w2) \<Rightarrow>
           (let result1 = result\<lparr>resultInput := resolvedNodeInput\<rparr> in
            (case call cls node resolvedNodeInput w2 of
               (Inl e, w3) \<Rightarrow> (Inl e, result1, ctx1, w3)
             | (Inr out, w3) \<Rightarrow>
                (let ctx2 = publishOutput node out ctx1 in
                 (case afterExecute cls node out w3 of
                    (Inl e, w4) \<Rightarrow> (Inl e, result1, ctx2, w4)
                  | (Inr _, w4) \<Rightarrow>
                     (Inr (), result1\<lparr>status := COMPLETED, resultOutput := Some out\<rparr>,
                      ctx2, w4))))))))"

text \<open>\<^verbatim>\<open>execute\<close>: the initial result, the \<^verbatim>\<open>try\<close> block and its \<^verbatim>\<open>catch\<close>.\<close>

definition execute ::
  "('v, 's) NodeClass \<Rightarrow> ('v, 's) NodeBase \<Rightarrow> 'v NodeContext \<Rightarrow> 's world
    \<Rightarrow> 'v NodeExecutionResult \<times> 'v NodeContext \<times> 's world" where
  "execute cls node ctx w =
     (let result = \<lparr>nodeId = node_id node, status = RUNNING, resultInput = Map.empty,
                    resultOutput = None, resultError = None\<rparr>
      in (case execute_try cls node (result, ctx, w) of
            (Inr _, st) \<Rightarrow> st
          | (Inl e, result', ctx', w') \<Rightarrow>
              (result'\<lparr>status := FAILED, resultError := Some e\<rparr>, ctx', w')))"

section \<open>Dynamic tool invocation\<close>

text \<open>
  Modelled from the spec: \<^verbatim>\<open>NodeTool.handleError(error, methodName)\<close> (\<^verbatim>\<open>NodeTool.ts\<close> is
  not among the sources). Section 4.3 of the specification gives it as the single policy
  point that logs and re-raises, and the header comment of \<^verbatim>\<open>WorldBookNodeTools.ts\<close> says
  the same of it: exceptions are recorded and thrown by it, so that none is swallowed.
\<close>

definition handleError :: "('v, 's) ToolClass \<Rightarrow> error \<Rightarrow> string \<Rightarrow> (unit, 's) async" where
  \<comment> \<open>Modelled from the spec: \<^verbatim>\<open>handleError(error, methodName)\<close> logs and re-raises\<close>
  "handleError tc e methodName w =
     (Inl e, console_emit (HandledError (getToolType tc) e methodName) w)"

definition isFunction :: "('v, 's) member option \<Rightarrow> bool" where
  \<comment> \<open>\<^verbatim>\<open>typeof x === "function"\<close>\<close>
  "isFunction x = (case x of Some (Callable _) \<Rightarrow> True | _ \<Rightarrow> False)"

definition availableMethods :: "('v, 's) ToolClass \<Rightarrow> string list" where
  "availableMethods tc =
     filter (\<lambda>name. isFunction (props tc name) \<and> take 1 name \<noteq> ''_'') (ownPropertyNames tc)"

text \<open>The \<^verbatim>\<open>try\<close> block of \<^verbatim>\<open>executeMethod\<close>.\<close>

definition executeMethod_try ::
  "('v, 's) ToolClass \<Rightarrow> ('v jsval list \<Rightarrow> ('v jsval, 's) async) \<Rightarrow> string \<Rightarrow> 'v jsval list
    \<Rightarrow> ('v jsval, 's) async" where
  "executeMethod_try tc method methodName ps w =
     (case logExecution tc methodName ps w of
        (Inl e, w1) \<Rightarrow> (Inl e, w1)
      | (Inr _, w1) \<Rightarrow> method ps w1)"

text \<open>
  \<^verbatim>\<open>executeMethod\<close>, the same code in \<^verbatim>\<open>WorldBookNodeTools\<close> and \<^verbatim>\<open>PresetNodeTools\<close>. Were
  \<^verbatim>\<open>handleError\<close> to return, the function would end without a \<^verbatim>\<open>return\<close> and resolve to
  \<^verbatim>\<open>undefined\<close>.
\<close>

definition executeMethod ::
  "('v, 's) ToolClass \<Rightarrow> string \<Rightarrow> 'v jsval list \<Rightarrow> ('v jsval, 's) async" where
  "executeMethod tc methodName ps w =
     (case props tc methodName of
        Some (Callable method) \<Rightarrow>
          (case executeMethod_try tc method methodName ps w of
             (Inr r, w1) \<Rightarrow> (Inr r, w1)
           | (Inl e, w1) \<Rightarrow>
               (case handleError tc e methodName w1 of
                  (Inl e', w2) \<Rightarrow> (Inl e', w2)
                | (Inr _, w2) \<Rightarrow> (Inr JSUndefined, w2)))
      | _ \<Rightarrow>
          (Inl (Error (''Method '' @ methodName @ '' not found in '' @ getToolType tc @ ''Tool'')),
           console_emit (AvailableMethods (availableMethods tc))
             (console_emit (MethodLookupFailed methodName) w)))"

definition executeTool ::
  "('v, 's) NodeBase \<Rightarrow> string \<Rightarrow> 'v jsval list \<Rightarrow> ('v jsval, 's) async" where
  "executeTool node methodName ps w =
     (case toolClass node of
        None \<Rightarrow> (Inl (Error (''No tool class available for node type: '' @ getName node)), w)
      | Some tc \<Rightarrow> executeMethod tc methodName ps w)"

section \<open>Construction\<close>

text \<open>
  Modelled from the spec: \<^verbatim>\<open>NodeToolRegistry\<close> (\<^verbatim>\<open>NodeTool.ts\<close> is not among the sources).
  Section 4.3 of the specification gives \<^verbatim>\<open>get(typeName) -> group|undefined\<close> and an
  idempotent \<^verbatim>\<open>register\<close>; the code registers a tool class with no name beside it, and the
  comment on \<^verbatim>\<open>getToolType\<close> says the tool type is what registration uses.
\<close>

type_synonym ('v, 's) registry = "string \<rightharpoonup> ('v, 's) ToolClass"

definition NodeToolRegistry_get ::
  "('v, 's) registry \<Rightarrow> string \<Rightarrow> error + ('v, 's) ToolClass option" where
  \<comment> \<open>Modelled from the spec: \<^verbatim>\<open>get(typeName) -> group|undefined\<close>\<close>
  "NodeToolRegistry_get registry typeName = Inr (registry typeName)"

definition NodeToolRegistry_register ::
  "('v, 's) ToolClass \<Rightarrow> ('v, 's) registry \<Rightarrow> ('v, 's) registry" where
  \<comment> \<open>Modelled from the spec: \<^verbatim>\<open>register\<close>, an idempotent association under the tool type\<close>
  "NodeToolRegistry_register tc registry =
     (if registry (getToolType tc) = None then registry(getToolType tc \<mapsto> tc) else registry)"

definition initializeTools ::
  "('v, 's) registry \<Rightarrow> ('v, 's) NodeBase \<Rightarrow> 's world \<Rightarrow> ('v, 's) NodeBase \<times> 's world" where
  "initializeTools registry node w =
     (case NodeToolRegistry_get registry (getName node) of
        Inr (Some registeredToolClass) \<Rightarrow> (node\<lparr>toolClass := Some registeredToolClass\<rparr>, w)
      | Inr None \<Rightarrow> (node, console_emit (ToolClassNotFound (getName node)) w)
      | Inl e \<Rightarrow> (node, console_emit (ToolLookupFailed e) w))"

definition orDefault :: "'a option \<Rightarrow> 'a \<Rightarrow> 'a" where
  \<comment> \<open>\<^verbatim>\<open>x || d\<close> for an optional array or object \<^verbatim>\<open>x\<close>\<close>
  "orDefault x d = (case x of None \<Rightarrow> d | Some y \<Rightarrow> y)"

text \<open>
  The constructor of \<^verbatim>\<open>NodeBase\<close>, run for the node class \<open>cls\<close>. The category is the
  default one of the class; a category in the configuration is not read.
\<close>

definition NodeBase_constructor ::
  "('v, 's) NodeClass \<Rightarrow> NodeConfig \<Rightarrow> ('v, 's) registry \<Rightarrow> 's world
    \<Rightarrow> ('v, 's) NodeBase \<times> 's world" where
  "NodeBase_constructor cls config registry w =
     initializeTools registry
       \<lparr>node_id = config_id config,
        node_name = config_name config,
        category = getDefaultCategory cls,
        next_ids = orDefault (config_next config) [],
        toolClass = None,
        params = \<lparr>initParams = orDefault (config_initParams config) [],
                  inputFields = orDefault (config_inputFields config) [],
                  outputFields = orDefault (config_outputFields config) [],
                  inputMapping = orDefault (config_inputMapping config) Map.empty\<rparr>\<rparr>
       w"

text \<open>
  The class \<^verbatim>\<open>WorldBookNode\<close> and its constructor, which registers its tool class, runs
  the constructor of \<^verbatim>\<open>NodeBase\<close> and then binds the tool class itself. The body of its
  \<^verbatim>\<open>_call\<close> and the class object \<^verbatim>\<open>WorldBookNodeTools\<close> are parameters: they rest on
  collaborators that are not among the sources. The constructor of \<^verbatim>\<open>UserInputNode\<close> is
  that of \<^verbatim>\<open>NodeBase\<close> and nothing else.
\<close>

definition WorldBookNode ::
  "(('v, 's) NodeBase \<Rightarrow> 'v js_object \<Rightarrow> ('v js_object, 's) async) \<Rightarrow> ('v, 's) NodeClass" where
  "WorldBookNode worldBookCall =
     \<lparr>getDefaultCategory = MIDDLE,
      beforeExecute = NodeBase_beforeExecute,
      call = worldBookCall,
      afterExecute = NodeBase_afterExecute\<rparr>"

definition WorldBookNode_constructor ::
  "('v, 's) ToolClass \<Rightarrow> (('v, 's) NodeBase \<Rightarrow> 'v js_object \<Rightarrow> ('v js_object, 's) async)
    \<Rightarrow> NodeConfig \<Rightarrow> ('v, 's) registry \<Rightarrow> 's world
    \<Rightarrow> ('v, 's) NodeBase \<times> ('v, 's) registry \<times> 's world" where
  "WorldBookNode_constructor WorldBookNodeTools worldBookCall config registry w =
     (let registry1 = NodeToolRegistry_register WorldBookNodeTools registry;
          (node, w1) = NodeBase_constructor (WorldBookNode worldBookCall) config registry1 w
      in (node\<lparr>toolClass := Some WorldBookNodeTools\<rparr>, registry1, w1))"

definition UserInputNode_constructor ::
  "NodeConfig \<Rightarrow> ('v, 's) registry \<Rightarrow> 's world \<Rightarrow> ('v, 's) NodeBase \<times> 's world" where
  "UserInputNode_constructor config registry w = NodeBase_constructor UserInputNode config registry w"

section \<open>Specifications and examples\<close>

text \<open>
  What the second loop of \<^verbatim>\<open>resolveInput\<close> is to write, in the words of the
  specification: for each name of \<^verbatim>\<open>inputFields\<close> that the cache holds, in order, the
  destination key with the value the cache holds under the name. And what
  \<^verbatim>\<open>resolveInput\<close> is to print: one warning for each declared name that is missing.
\<close>

definition cacheEntries :: "(string \<rightharpoonup> string) \<Rightarrow> 'v NodeContext \<Rightarrow> string list \<Rightarrow> (string \<times> 'v jsval) list" where
  "cacheEntries mapping ctx fs =
     map (\<lambda>f. (nodeFieldName mapping f, getCache ctx f)) (filter (hasCache ctx) fs)"

definition missingInputDiagnostics :: "('v, 's) NodeBase \<Rightarrow> 'v NodeContext \<Rightarrow> diagnostic list" where
  "missingInputDiagnostics node ctx =
     map (MissingInput (node_id node)) (filter (\<lambda>f. \<not> hasInput ctx f) (getInitParams node)) @
     map (\<lambda>f. MissingCache (node_id node) f (nodeFieldName (inputMapping (params node)) f))
       (filter (\<lambda>f. \<not> hasCache ctx f) (getInputFields node))"

text \<open>
  The fields \<^verbatim>\<open>publishOutput\<close> is to write, and the projection the default \<^verbatim>\<open>_call\<close>
  is to return, in the words of the specification: the declared names whose value in the
  given object is not \<^verbatim>\<open>undefined\<close>, each with that value.
\<close>

definition declaredAndDefined :: "string list \<Rightarrow> 'v js_object \<Rightarrow> 'v js_object" where
  "declaredAndDefined names obj =
     (\<lambda>key. if key \<in> set names \<and> prop_get obj key \<noteq> JSUndefined
            then Some (prop_get obj key) else None)"

subsection \<open>Concrete nodes and contexts\<close>

definition emptyWorld :: "unit world" where
  "emptyWorld = \<lparr>console = [], env = ()\<rparr>"

definition example_entry_config :: NodeConfig where
  "example_entry_config =
     \<lparr>config_id = ''user-input-1'', config_name = ''userInput'', config_next = None,
      config_initParams = Some [''x'', ''y''], config_inputFields = None,
      config_outputFields = None, config_inputMapping = None\<rparr>"

definition example_entry_node :: "(int, unit) NodeBase" where
  "example_entry_node = fst (UserInputNode_constructor example_entry_config Map.empty emptyWorld)"

definition example_entry_context :: "int NodeContext" where
  "example_entry_context =
     \<lparr>inputStore = [''x'' \<mapsto> JSValue 1], cacheStore = Map.empty, outputStore = Map.empty\<rparr>"

definition example_mapping_node :: "(string, unit) NodeBase" where
  "example_mapping_node =
     \<lparr>node_id = ''world-book-1'', node_name = ''worldBook'', category = MIDDLE,
      next_ids = [], toolClass = None,
      params = \<lparr>initParams = [], inputFields = [''userInput''], outputFields = [],
                inputMapping = [''userInput'' \<mapsto> ''currentUserInput'']\<rparr>\<rparr>"

definition example_mapping_context :: "string NodeContext" where
  "example_mapping_context =
     \<lparr>inputStore = Map.empty, cacheStore = [''userInput'' \<mapsto> JSValue ''hi''],
      outputStore = Map.empty\<rparr>"

definition example_node :: "NodeCategory \<Rightarrow> string list \<Rightarrow> (int, unit) NodeBase" where
  "example_node cat outs =
     \<lparr>node_id = ''n1'', node_name = ''example'', category = cat, next_ids = [],
      toolClass = None,
      params = \<lparr>initParams = [], inputFields = [], outputFields = outs,
                inputMapping = Map.empty\<rparr>\<rparr>"

definition emptyContext :: "int NodeContext" where
  "emptyContext = \<lparr>inputStore = Map.empty, cacheStore = Map.empty, outputStore = Map.empty\<rparr>"

text \<open>
  A node class whose \<^verbatim>\<open>_call\<close> throws, as that of \<^verbatim>\<open>WorldBookNode\<close> does when the
  resolved input has no system message, and one whose \<^verbatim>\<open>afterExecute\<close> throws.
\<close>

definition example_call_throws :: "(int, unit) NodeClass" where
  "example_call_throws =
     \<lparr>getDefaultCategory = MIDDLE,
      beforeExecute = NodeBase_beforeExecute,
      call = (\<lambda>node inp w. (Inl (Error ''System message is required for WorldBookNode''), w)),
      afterExecute = NodeBase_afterExecute\<rparr>"

definition example_afterExecute_throws :: "(int, unit) NodeClass" where
  "example_afterExecute_throws =
     \<lparr>getDefaultCategory = MIDDLE,
      beforeExecute = NodeBase_beforeExecute,
      call = NodeBase_call,
      afterExecute = (\<lambda>node out w. (Inl (Error ''afterExecute failed''), w))\<rparr>"

definition example_publishing_node :: "NodeCategory \<Rightarrow> (int, unit) NodeBase" where
  "example_publishing_node cat =
     \<lparr>node_id = ''n2'', node_name = ''example'', category = cat, next_ids = [],
      toolClass = None,
      params = \<lparr>initParams = [''a''], inputFields = [], outputFields = [''a''],
                inputMapping = Map.empty\<rparr>\<rparr>"

definition example_publishing_context :: "int NodeContext" where
  "example_publishing_context =
     \<lparr>inputStore = [''a'' \<mapsto> JSValue 1], cacheStore = Map.empty, outputStore = Map.empty\<rparr>"

text \<open>
  The members of \<^verbatim>\<open>WorldBookNodeTools\<close> that the examples use: the data members
  \<^verbatim>\<open>toolType\<close> and \<^verbatim>\<open>version\<close>, and the method \<^verbatim>\<open>assemblePromptWithWorldBook\<close> in a run in
  which reading the character record fails. A \<^verbatim>\<open>WorldBookNode\<close> is then built from a
  configuration whose name is not the tool type.
\<close>

definition example_WorldBookNodeTools :: "(string, unit) ToolClass" where
  "example_WorldBookNodeTools =
     \<lparr>toolType = ''worldBook'',
      props = [''toolType'' \<mapsto> NonCallable,
               ''version'' \<mapsto> NonCallable,
               ''assemblePromptWithWorldBook'' \<mapsto>
                  Callable (\<lambda>ps w. (Inl (Error ''Character not found''), w))],
      ownPropertyNames = [''length'', ''name'', ''prototype'', ''assemblePromptWithWorldBook'',
                          ''toolType'', ''version''],
      logExecution = (\<lambda>methodName ps w. (Inr (), w))\<rparr>"

definition example_worldBook_call ::
  "(string, unit) NodeBase \<Rightarrow> string js_object \<Rightarrow> (string js_object, unit) async" where
  "example_worldBook_call node inp w =
     (Inl (Error ''System message is required for WorldBookNode''), w)"

definition example_worldBook_config :: NodeConfig where
  "example_worldBook_config =
     \<lparr>config_id = ''world-book-1'', config_name = ''wb'', config_next = Some [''llm-1''],
      config_initParams = Some [], config_inputFields = Some [''systemMessage'', ''userInput''],
      config_outputFields = Some [''systemMessage'', ''userMessage''],
      config_inputMapping = Some [''userInput'' \<mapsto> ''currentUserInput'']\<rparr>"

section \<open>Properties of resolveInput\<close>

lemma resolveInitParams_fst:
  "fst (resolveInitParams nid ctx fs r w) = r ++ (inputStore ctx |` set fs)"
proof (induction fs arbitrary: r w)
  case Nil
  show ?case by simp
next
  case (Cons f fs)
  show ?case
    by (auto simp: Cons.IH hasInput_def getInput_def prop_get_def map_add_def restrict_map_def
             split: option.splits intro: ext)
qed

lemma resolveInitParams_snd:
  "snd (resolveInitParams nid ctx fs r w) =
     w\<lparr>console := console w @ map (MissingInput nid) (filter (\<lambda>f. \<not> hasInput ctx f) fs)\<rparr>"
  by (induction fs arbitrary: r w) (simp_all add: console_emit_def)

lemma resolveInputFields_fst:
  "fst (resolveInputFields nid mapping ctx fs r w) = r ++ map_of (rev (cacheEntries mapping ctx fs))"
proof (induction fs arbitrary: r w)
  case Nil
  show ?case by (simp add: cacheEntries_def)
next
  case (Cons f fs)
  show ?case
    by (auto simp: Cons.IH cacheEntries_def map_add_def split: option.splits intro: ext)
qed

lemma resolveInputFields_snd:
  "snd (resolveInputFields nid mapping ctx fs r w) =
     w\<lparr>console := console w @
         map (\<lambda>f. MissingCache nid f (nodeFieldName mapping f)) (filter (\<lambda>f. \<not> hasCache ctx f) fs)\<rparr>"
  by (induction fs arbitrary: r w) (simp_all add: console_emit_def)

lemma resolveInput_eq:
  "resolveInput node ctx w =
     ((inputStore ctx |` set (getInitParams node)) ++
        map_of (rev (cacheEntries (inputMapping (params node)) ctx (getInputFields node))),
      ctx,
      w\<lparr>console := console w @ missingInputDiagnostics node ctx\<rparr>)"
proof -
  obtain r1 w1 where a: "resolveInitParams (node_id node) ctx (getInitParams node) Map.empty w = (r1, w1)"
    by (cases "resolveInitParams (node_id node) ctx (getInitParams node) Map.empty w")
  obtain r2 w2 where b: "resolveInputFields (node_id node) (inputMapping (params node)) ctx
                              (getInputFields node) r1 w1 = (r2, w2)"
    by (cases "resolveInputFields (node_id node) (inputMapping (params node)) ctx
                              (getInputFields node) r1 w1")
  have r1: "r1 = inputStore ctx |` set (getInitParams node)"
    using resolveInitParams_fst [of "node_id node" ctx "getInitParams node" Map.empty w] a by simp
  have w1: "w1 = w\<lparr>console := console w @ map (MissingInput (node_id node))
                    (filter (\<lambda>f. \<not> hasInput ctx f) (getInitParams node))\<rparr>"
    using resolveInitParams_snd [of "node_id node" ctx "getInitParams node" Map.empty w] a by simp
  have r2: "r2 = r1 ++ map_of (rev (cacheEntries (inputMapping (params node)) ctx (getInputFields node)))"
    using resolveInputFields_fst [of "node_id node" "inputMapping (params node)" ctx "getInputFields node" r1 w1] b
    by simp
  have w2: "w2 = w1\<lparr>console := console w1 @
         map (\<lambda>f. MissingCache (node_id node) f (nodeFieldName (inputMapping (params node)) f))
           (filter (\<lambda>f. \<not> hasCache ctx f) (getInputFields node))\<rparr>"
    using resolveInputFields_snd [of "node_id node" "inputMapping (params node)" ctx "getInputFields node" r1 w1] b
    by simp
  have "resolveInput node ctx w = (r2, ctx, w2)"
    by (simp add: resolveInput_def a b)
  then show ?thesis
    by (simp add: r1 r2 w1 w2 missingInputDiagnostics_def)
qed

lemma cacheEntries_keys:
  "fst ` set (cacheEntries mapping ctx fs) = nodeFieldName mapping ` {f \<in> set fs. hasCache ctx f}"
  by (auto simp: cacheEntries_def image_iff)

lemma resolveInput_dom:
  "dom (fst (resolveInput node ctx w)) =
     {f \<in> set (getInitParams node). hasInput ctx f} \<union>
     nodeFieldName (inputMapping (params node)) ` {f \<in> set (getInputFields node). hasCache ctx f}"
proof -
  have "dom (inputStore ctx |` set (getInitParams node)) = {f \<in> set (getInitParams node). hasInput ctx f}"
    by (auto simp: hasInput_def restrict_map_def split: if_splits)
  then show ?thesis
    by (simp add: resolveInput_eq dom_map_of_conv_image_fst cacheEntries_keys Un_commute)
qed

text \<open>
  Claim C2. \<^verbatim>\<open>resolveInput\<close> always returns: a declared name that is missing is no
  error. The keys of the resolved input are exactly the names of \<^verbatim>\<open>initParams\<close> that the
  input store holds and the destination keys of the names of \<^verbatim>\<open>inputFields\<close> that the
  cache holds; a name of \<^verbatim>\<open>initParams\<close> that the input store holds carries the value of
  the input store (unless the second loop writes the same key afterwards); every missing
  name adds one warning to the console and nothing else happens. The witness is the ENTRY
  node with \<^verbatim>\<open>initParams = ["x", "y"]\<close> run on the parameters \<^verbatim>\<open>{x: 1}\<close>.
\<close>

theorem resolveInput_missing_field_nonfatal:
  "\<exists>resolved w'. resolveInput node ctx w = (resolved, ctx, w')
     \<and> dom resolved =
         {f \<in> set (getInitParams node). hasInput ctx f} \<union>
         nodeFieldName (inputMapping (params node)) ` {f \<in> set (getInputFields node). hasCache ctx f}
     \<and> (\<forall>f \<in> set (getInitParams node).
           hasInput ctx f \<and>
           f \<notin> nodeFieldName (inputMapping (params node)) ` {g \<in> set (getInputFields node). hasCache ctx g}
           \<longrightarrow> resolved f = Some (getInput ctx f))
     \<and> console w' = console w @ missingInputDiagnostics node ctx
     \<and> env w' = env w"
proof -
  let ?r = "fst (resolveInput node ctx w)"
  let ?w = "snd (snd (resolveInput node ctx w))"
  have eq: "resolveInput node ctx w = (?r, ctx, ?w)"
    by (simp add: resolveInput_eq)
  have vals: "\<forall>f \<in> set (getInitParams node).
           hasInput ctx f \<and>
           f \<notin> nodeFieldName (inputMapping (params node)) ` {g \<in> set (getInputFields node). hasCache ctx g}
           \<longrightarrow> ?r f = Some (getInput ctx f)"
  proof (intro ballI impI)
    fix f
    assume f: "f \<in> set (getInitParams node)"
      and h: "hasInput ctx f \<and>
           f \<notin> nodeFieldName (inputMapping (params node)) ` {g \<in> set (getInputFields node). hasCache ctx g}"
    from h have "f \<notin> fst ` set (rev (cacheEntries (inputMapping (params node)) ctx (getInputFields node)))"
      unfolding set_rev cacheEntries_keys by blast
    then have "map_of (rev (cacheEntries (inputMapping (params node)) ctx (getInputFields node))) f = None"
      by (rule map_of_eq_None_iff [THEN iffD2])
    with f h show "?r f = Some (getInput ctx f)"
      by (auto simp: resolveInput_eq map_add_def hasInput_def getInput_def prop_get_def)
  qed
  have "console ?w = console w @ missingInputDiagnostics node ctx" "env ?w = env w"
    by (simp_all add: resolveInput_eq)
  with eq vals resolveInput_dom [of node ctx w] show ?thesis
    by blast
qed

theorem resolveInput_missing_field_nonfatal_witness:
  "category example_entry_node = ENTRY
   \<and> getInitParams example_entry_node = [''x'', ''y'']
   \<and> (\<exists>resolved w'. resolveInput example_entry_node example_entry_context emptyWorld
          = (resolved, example_entry_context, w')
        \<and> dom resolved = {''x''}
        \<and> resolved ''x'' = Some (JSValue 1)
        \<and> console w' = [MissingInput ''user-input-1'' ''y''])"
proof -
  have node: "example_entry_node =
     \<lparr>node_id = ''user-input-1'', node_name = ''userInput'', category = ENTRY, next_ids = [],
      toolClass = None,
      params = \<lparr>initParams = [''x'', ''y''], inputFields = [], outputFields = [],
                inputMapping = Map.empty\<rparr>\<rparr>"
    by (simp add: example_entry_node_def UserInputNode_constructor_def NodeBase_constructor_def
          initializeTools_def NodeToolRegistry_get_def example_entry_config_def orDefault_def
          UserInputNode_def)
  from resolveInput_missing_field_nonfatal [of example_entry_node example_entry_context emptyWorld]
  obtain resolved w' where
    "resolveInput example_entry_node example_entry_context emptyWorld
          = (resolved, example_entry_context, w')"
    "dom resolved =
         {f \<in> set (getInitParams example_entry_node). hasInput example_entry_context f} \<union>
         nodeFieldName (inputMapping (params example_entry_node)) `
           {f \<in> set (getInputFields example_entry_node). hasCache example_entry_context f}"
    "\<forall>f \<in> set (getInitParams example_entry_node).
           hasInput example_entry_context f \<and>
           f \<notin> nodeFieldName (inputMapping (params example_entry_node)) `
             {g \<in> set (getInputFields example_entry_node). hasCache example_entry_context g}
           \<longrightarrow> resolved f = Some (getInput example_entry_context f)"
    "console w' = console emptyWorld @ missingInputDiagnostics example_entry_node example_entry_context"
    by blast
  then show ?thesis
    unfolding node
    by (auto simp: getInitParams_def getInputFields_def hasInput_def hasCache_def getInput_def
          prop_get_def example_entry_context_def emptyWorld_def missingInputDiagnostics_def)
qed

lemma resolveInput_absent_key:
  assumes "key \<notin> {f \<in> set (getInitParams node). hasInput ctx f}"
      and "key \<notin> nodeFieldName (inputMapping (params node)) `
                   {f \<in> set (getInputFields node). hasCache ctx f}"
  shows "fst (resolveInput node ctx w) key = None"
proof -
  from assms have "key \<notin> dom (fst (resolveInput node ctx w))"
    unfolding resolveInput_dom by blast
  then show ?thesis by blast
qed

text \<open>
  Claim C3. For a name of \<^verbatim>\<open>inputFields\<close> that the cache holds, the destination key is
  \<^verbatim>\<open>inputMapping[name]\<close>, and the name itself when the mapping has no entry for it (or an
  empty one); the resolved input holds under the destination key the value the cache
  holds under the name, provided no later name of \<^verbatim>\<open>inputFields\<close> that the cache holds
  is written to the same key. A key that is neither a present name of \<^verbatim>\<open>initParams\<close> nor
  the destination of a present name of \<^verbatim>\<open>inputFields\<close> is not in the resolved input. The
  witness is the node with \<^verbatim>\<open>inputFields = ["userInput"]\<close> and the mapping of
  \<^verbatim>\<open>userInput\<close> to \<^verbatim>\<open>currentUserInput\<close>.
\<close>

theorem resolveInput_applies_inputMapping:
  assumes fields: "getInputFields node = earlier @ name # later"
      and present: "hasCache ctx name"
      and dest: "dest = nodeFieldName (inputMapping (params node)) name"
      and last: "\<forall>f \<in> set later. hasCache ctx f \<longrightarrow> nodeFieldName (inputMapping (params node)) f \<noteq> dest"
  shows "(inputMapping (params node) name = None \<longrightarrow> dest = name)
       \<and> (\<forall>d. inputMapping (params node) name = Some d \<and> d \<noteq> [] \<longrightarrow> dest = d)
       \<and> fst (resolveInput node ctx w) dest = Some (getCache ctx name)
       \<and> (\<forall>key. key \<notin> {f \<in> set (getInitParams node). hasInput ctx f}
                \<and> key \<notin> nodeFieldName (inputMapping (params node)) `
                            {f \<in> set (getInputFields node). hasCache ctx f}
              \<longrightarrow> fst (resolveInput node ctx w) key = None)"
proof -
  let ?m = "inputMapping (params node)"
  have a: "?m name = None \<longrightarrow> dest = name"
    by (simp add: dest nodeFieldName_def)
  have b: "\<forall>d. ?m name = Some d \<and> d \<noteq> [] \<longrightarrow> dest = d"
    by (simp add: dest nodeFieldName_def)
  have "dest \<notin> fst ` set (cacheEntries ?m ctx later)"
    unfolding cacheEntries_keys using last by blast
  then have later_none: "map_of (rev (cacheEntries ?m ctx later)) dest = None"
    by (simp add: map_of_eq_None_iff)
  have "cacheEntries ?m ctx (getInputFields node) =
          cacheEntries ?m ctx earlier @ (dest, getCache ctx name) # cacheEntries ?m ctx later"
    using present by (simp add: fields cacheEntries_def dest)
  then have "map_of (rev (cacheEntries ?m ctx (getInputFields node))) dest = Some (getCache ctx name)"
    using later_none by (simp add: map_add_def)
  then have c: "fst (resolveInput node ctx w) dest = Some (getCache ctx name)"
    by (simp add: resolveInput_eq map_add_def)
  from a b c resolveInput_absent_key [of _ node ctx w] show ?thesis
    by blast
qed

theorem resolveInput_applies_inputMapping_witness:
  "getInputFields example_mapping_node = [''userInput'']
   \<and> inputMapping (params example_mapping_node) ''userInput'' = Some ''currentUserInput''
   \<and> cacheStore example_mapping_context ''userInput'' = Some (JSValue ''hi'')
   \<and> fst (resolveInput example_mapping_node example_mapping_context emptyWorld) ''currentUserInput''
       = Some (JSValue ''hi'')
   \<and> fst (resolveInput example_mapping_node example_mapping_context emptyWorld) ''userInput'' = None"
proof -
  have fields: "getInputFields example_mapping_node = [] @ ''userInput'' # []"
    by (simp add: getInputFields_def example_mapping_node_def)
  have present: "hasCache example_mapping_context ''userInput''"
    by (simp add: hasCache_def example_mapping_context_def)
  have dest: "''currentUserInput'' = nodeFieldName (inputMapping (params example_mapping_node)) ''userInput''"
    by (simp add: nodeFieldName_def example_mapping_node_def)
  have last: "\<forall>f \<in> set []. hasCache example_mapping_context f \<longrightarrow>
                nodeFieldName (inputMapping (params example_mapping_node)) f \<noteq> ''currentUserInput''"
    by simp
  note inst = resolveInput_applies_inputMapping [OF fields present dest last, of emptyWorld]
  have k1: "''userInput'' \<notin> {f \<in> set (getInitParams example_mapping_node). hasInput example_mapping_context f}"
    by (simp add: getInitParams_def example_mapping_node_def)
  have k2: "''userInput'' \<notin> nodeFieldName (inputMapping (params example_mapping_node)) `
              {f \<in> set (getInputFields example_mapping_node). hasCache example_mapping_context f}"
    by (auto simp: getInputFields_def example_mapping_node_def nodeFieldName_def)
  from inst k1 k2 have
    "fst (resolveInput example_mapping_node example_mapping_context emptyWorld) ''currentUserInput''
       = Some (getCache example_mapping_context ''userInput'')"
    "fst (resolveInput example_mapping_node example_mapping_context emptyWorld) ''userInput'' = None"
    by blast+
  then show ?thesis
    by (simp add: getInputFields_def getCache_def prop_get_def
          example_mapping_node_def example_mapping_context_def)
qed

lemma readers_depend_on_input_and_cache:
  assumes "inputStore ctx1 = inputStore ctx2" and "cacheStore ctx1 = cacheStore ctx2"
  shows "hasInput ctx1 = hasInput ctx2" and "getInput ctx1 = getInput ctx2"
    and "hasCache ctx1 = hasCache ctx2" and "getCache ctx1 = getCache ctx2"
  using assms by (auto simp: hasInput_def getInput_def hasCache_def getCache_def intro: ext)

text \<open>
  Claim C7. Two contexts with the same input store and the same cache give the same
  resolved input and the same warnings, whatever their output stores hold: nothing
  written to the output store is read back when a node resolves its input. Nor is it
  read anywhere else in a run: for every node class, \<^verbatim>\<open>execute\<close> returns the same result
  and leaves the same world on both contexts, the hooks and \<^verbatim>\<open>_call\<close> being given the
  resolved input and the output only.
\<close>

theorem resolveInput_ignores_outputStore:
  assumes "inputStore ctx1 = inputStore ctx2" and "cacheStore ctx1 = cacheStore ctx2"
  shows "fst (resolveInput node ctx1 w) = fst (resolveInput node ctx2 w)
       \<and> snd (snd (resolveInput node ctx1 w)) = snd (snd (resolveInput node ctx2 w))
       \<and> fst (execute cls node ctx1 w) = fst (execute cls node ctx2 w)
       \<and> snd (snd (execute cls node ctx1 w)) = snd (snd (execute cls node ctx2 w))"
proof -
  have same: "fst (resolveInput node ctx1 w) = fst (resolveInput node ctx2 w)
       \<and> snd (snd (resolveInput node ctx1 w)) = snd (snd (resolveInput node ctx2 w))"
    using assms readers_depend_on_input_and_cache [OF assms]
    by (simp add: resolveInput_eq cacheEntries_def missingInputDiagnostics_def)
  obtain r w1 where r1: "resolveInput node ctx1 w = (r, ctx1, w1)"
    by (simp add: resolveInput_eq)
  with same have r2: "resolveInput node ctx2 w = (r, ctx2, w1)"
    by (simp add: resolveInput_eq)
  obtain b w2 where before: "beforeExecute cls node r w1 = (b, w2)"
    by (cases "beforeExecute cls node r w1")
  have "fst (execute cls node ctx1 w) = fst (execute cls node ctx2 w)
       \<and> snd (snd (execute cls node ctx1 w)) = snd (snd (execute cls node ctx2 w))"
  proof (cases b)
    case (Inl e)
    then show ?thesis
      by (simp add: execute_def execute_try_def r1 r2 before)
  next
    case (Inr u)
    obtain c w3 where called: "call cls node r w2 = (c, w3)"
      by (cases "call cls node r w2")
    show ?thesis
    proof (cases c)
      case (Inl e)
      then show ?thesis
        by (simp add: execute_def execute_try_def r1 r2 before Inr called)
    next
      case out: (Inr out)
      obtain a w4 where after: "afterExecute cls node out w3 = (a, w4)"
        by (cases "afterExecute cls node out w3")
      show ?thesis
        by (cases a) (simp_all add: execute_def execute_try_def r1 r2 before Inr called out after)
    qed
  qed
  with same show ?thesis by blast
qed

theorem resolveInput_ignores_outputStore_witness:
  "inputStore example_entry_context = inputStore (example_entry_context\<lparr>outputStore := [''x'' \<mapsto> JSValue 7]\<rparr>)
   \<and> cacheStore example_entry_context = cacheStore (example_entry_context\<lparr>outputStore := [''x'' \<mapsto> JSValue 7]\<rparr>)
   \<and> outputStore example_entry_context ''x'' \<noteq> outputStore (example_entry_context\<lparr>outputStore := [''x'' \<mapsto> JSValue 7]\<rparr>) ''x''
   \<and> fst (resolveInput example_entry_node example_entry_context emptyWorld)
       = fst (resolveInput example_entry_node (example_entry_context\<lparr>outputStore := [''x'' \<mapsto> JSValue 7]\<rparr>) emptyWorld)
   \<and> snd (snd (resolveInput example_entry_node example_entry_context emptyWorld))
       = snd (snd (resolveInput example_entry_node (example_entry_context\<lparr>outputStore := [''x'' \<mapsto> JSValue 7]\<rparr>) emptyWorld))
   \<and> fst (execute UserInputNode example_entry_node example_entry_context emptyWorld)
       = fst (execute UserInputNode example_entry_node (example_entry_context\<lparr>outputStore := [''x'' \<mapsto> JSValue 7]\<rparr>) emptyWorld)"
proof -
  let ?ctx' = "example_entry_context\<lparr>outputStore := [''x'' \<mapsto> JSValue 7]\<rparr>"
  have i: "inputStore example_entry_context = inputStore ?ctx'"
    and c: "cacheStore example_entry_context = cacheStore ?ctx'"
    by simp_all
  have "outputStore example_entry_context ''x'' \<noteq> outputStore ?ctx' ''x''"
    by (simp add: example_entry_context_def)
  with i c resolveInput_ignores_outputStore
             [OF i c, where node = example_entry_node and w = emptyWorld and cls = UserInputNode]
  show ?thesis by blast
qed

text \<open>
  Claim C8. \<^verbatim>\<open>resolveInput\<close> leaves the context as it found it, a second call on the
  context and the console that the first one left gives the same resolved input again,
  and the resolved input does not depend on the world.
\<close>

theorem resolveInput_idempotent:
  "(case resolveInput node ctx w of
      (resolved1, ctx1, w1) \<Rightarrow>
        ctx1 = ctx \<and>
        (case resolveInput node ctx1 w1 of
           (resolved2, ctx2, w2) \<Rightarrow> resolved2 = resolved1 \<and> ctx2 = ctx))
   \<and> (\<forall>w'. fst (resolveInput node ctx w') = fst (resolveInput node ctx w))"
  by (simp add: resolveInput_eq)

theorem resolveInput_idempotent_witness:
  "(case resolveInput example_entry_node example_entry_context emptyWorld of
      (resolved1, ctx1, w1) \<Rightarrow>
        ctx1 = example_entry_context \<and>
        (case resolveInput example_entry_node ctx1 w1 of
           (resolved2, ctx2, w2) \<Rightarrow> resolved2 = resolved1 \<and> ctx2 = example_entry_context))"
  by (rule conjunct1 [OF resolveInput_idempotent
          [where node = example_entry_node and ctx = example_entry_context and w = emptyWorld]])

section \<open>Properties of publishOutput and of the default call method\<close>

lemma publishOutputFields_eq:
  "publishOutputFields node out fs ctx =
     (if category node = EXIT
      then ctx\<lparr>outputStore := outputStore ctx ++ declaredAndDefined fs out\<rparr>
      else ctx\<lparr>cacheStore := cacheStore ctx ++ declaredAndDefined fs out\<rparr>)"
proof (induction fs arbitrary: ctx)
  case Nil
  show ?case by (simp add: declaredAndDefined_def map_add_def)
next
  case (Cons f fs)
  have upd: "\<And>m v. prop_get out f = v \<Longrightarrow> v \<noteq> JSUndefined \<Longrightarrow>
          m(f \<mapsto> v) ++ declaredAndDefined fs out = m ++ declaredAndDefined (f # fs) out"
    by (rule ext) (simp add: declaredAndDefined_def map_add_def)
  have skip: "prop_get out f = JSUndefined \<Longrightarrow>
          declaredAndDefined (f # fs) out = declaredAndDefined fs out"
    by (rule ext) (auto simp: declaredAndDefined_def)
  show ?case
  proof (cases "prop_get out f = JSUndefined")
    case True
    then show ?thesis by (simp add: Cons.IH skip)
  next
    case False
    then show ?thesis
      by (cases "category node")
         (simp_all add: Cons.IH storeData_def setOutput_def setCache_def upd)
  qed
qed

text \<open>
  Claim C1. \<^verbatim>\<open>publishOutput\<close> writes exactly the names that are declared in
  \<^verbatim>\<open>outputFields\<close> and whose value in the output is not \<^verbatim>\<open>undefined\<close>: each is written
  with that value to the output store when the category is EXIT and to the cache
  otherwise, the other of the two stores keeping what it held under the name; under every
  other key (a field of the output that is not declared among them) both stores keep
  what they held; the input store is untouched. The witness is an EXIT node and a MIDDLE
  node, each with \<^verbatim>\<open>outputFields = ["a"]\<close> and the output \<^verbatim>\<open>{a: 1, b: 2}\<close>.
\<close>

theorem publishOutput_writes_declared_fields:
  "(\<forall>key. key \<in> set (getOutputFields node) \<and> prop_get out key \<noteq> JSUndefined \<longrightarrow>
       (if category node = EXIT
        then outputStore (publishOutput node out ctx) key = Some (prop_get out key)
           \<and> cacheStore (publishOutput node out ctx) key = cacheStore ctx key
        else cacheStore (publishOutput node out ctx) key = Some (prop_get out key)
           \<and> outputStore (publishOutput node out ctx) key = outputStore ctx key))
   \<and> (\<forall>key. \<not> (key \<in> set (getOutputFields node) \<and> prop_get out key \<noteq> JSUndefined) \<longrightarrow>
         outputStore (publishOutput node out ctx) key = outputStore ctx key
       \<and> cacheStore (publishOutput node out ctx) key = cacheStore ctx key)
   \<and> inputStore (publishOutput node out ctx) = inputStore ctx"
  by (simp add: publishOutput_def publishOutputFields_eq declaredAndDefined_def map_add_def)

theorem publishOutput_writes_declared_fields_witness:
  "(let ctx' = publishOutput (example_node EXIT [''a'']) [''a'' \<mapsto> JSValue 1, ''b'' \<mapsto> JSValue 2] emptyContext
    in outputStore ctx' ''a'' = Some (JSValue 1) \<and> cacheStore ctx' ''a'' = None
     \<and> outputStore ctx' ''b'' = None \<and> cacheStore ctx' ''b'' = None)
   \<and> (let ctx' = publishOutput (example_node MIDDLE [''a'']) [''a'' \<mapsto> JSValue 1, ''b'' \<mapsto> JSValue 2] emptyContext
    in cacheStore ctx' ''a'' = Some (JSValue 1) \<and> outputStore ctx' ''a'' = None
     \<and> outputStore ctx' ''b'' = None \<and> cacheStore ctx' ''b'' = None)"
proof -
  let ?out = "[''a'' \<mapsto> JSValue (1::int), ''b'' \<mapsto> JSValue 2]"
  note e = publishOutput_writes_declared_fields [of "example_node EXIT [''a'']" ?out emptyContext]
  note m = publishOutput_writes_declared_fields [of "example_node MIDDLE [''a'']" ?out emptyContext]
  have decl: "\<And>cat. getOutputFields (example_node cat [''a'']) = [''a'']"
    "\<And>cat. category (example_node cat [''a'']) = cat"
    by (simp_all add: getOutputFields_def example_node_def)
  have a: "prop_get ?out ''a'' = JSValue 1"
    by (simp add: prop_get_def)
  from e have "outputStore (publishOutput (example_node EXIT [''a'']) ?out emptyContext) ''a'' = Some (JSValue 1)
      \<and> cacheStore (publishOutput (example_node EXIT [''a'']) ?out emptyContext) ''a'' = None
      \<and> outputStore (publishOutput (example_node EXIT [''a'']) ?out emptyContext) ''b'' = None
      \<and> cacheStore (publishOutput (example_node EXIT [''a'']) ?out emptyContext) ''b'' = None"
    by (simp add: decl a emptyContext_def)
  moreover
  from m have "cacheStore (publishOutput (example_node MIDDLE [''a'']) ?out emptyContext) ''a'' = Some (JSValue 1)
      \<and> outputStore (publishOutput (example_node MIDDLE [''a'']) ?out emptyContext) ''a'' = None
      \<and> outputStore (publishOutput (example_node MIDDLE [''a'']) ?out emptyContext) ''b'' = None
      \<and> cacheStore (publishOutput (example_node MIDDLE [''a'']) ?out emptyContext) ''b'' = None"
    by (simp add: decl a emptyContext_def)
  ultimately show ?thesis
    by (simp only: Let_def)
qed

lemma NodeBase_call_fields_eq:
  "NodeBase_call_fields inp fs out = out ++ declaredAndDefined fs inp"
proof (induction fs arbitrary: out)
  case Nil
  show ?case by (simp add: declaredAndDefined_def map_add_def)
next
  case (Cons f fs)
  show ?case
    by (rule ext) (simp add: Cons.IH declaredAndDefined_def map_add_def)
qed

text \<open>
  Claim C5. The default \<^verbatim>\<open>_call\<close> returns the whole resolved input when
  \<^verbatim>\<open>outputFields\<close> is empty. Otherwise it returns an object in which a key is present
  exactly when it is declared in \<^verbatim>\<open>outputFields\<close> and its value in the input is not
  \<^verbatim>\<open>undefined\<close>, and every key present holds what the input holds under it. It never
  throws and leaves the world as it is.
\<close>

theorem NodeBase_call_echoes_or_projects:
  "(getOutputFields node = [] \<longrightarrow> NodeBase_call node inp w = (Inr inp, w))
   \<and> (getOutputFields node \<noteq> [] \<longrightarrow>
        (\<exists>out. NodeBase_call node inp w = (Inr out, w)
           \<and> (\<forall>key. (out key \<noteq> None) = (key \<in> set (getOutputFields node) \<and> prop_get inp key \<noteq> JSUndefined))
           \<and> (\<forall>key. out key \<noteq> None \<longrightarrow> out key = inp key)))"
proof -
  have "\<forall>key. declaredAndDefined (getOutputFields node) inp key \<noteq> None \<longrightarrow>
          declaredAndDefined (getOutputFields node) inp key = inp key"
    by (auto simp: declaredAndDefined_def prop_get_def split: option.splits)
  then show ?thesis
    by (simp add: NodeBase_call_def NodeBase_call_fields_eq) (simp add: declaredAndDefined_def)
qed

theorem NodeBase_call_echoes_or_projects_witness:
  "NodeBase_call (example_node ENTRY []) [''x'' \<mapsto> JSValue 1] emptyWorld
     = (Inr [''x'' \<mapsto> JSValue 1], emptyWorld)
   \<and> (\<exists>out. NodeBase_call (example_node MIDDLE [''a'', ''c''])
               [''a'' \<mapsto> JSValue 1, ''b'' \<mapsto> JSValue 2, ''c'' \<mapsto> JSUndefined] emptyWorld
             = (Inr out, emptyWorld)
        \<and> out ''a'' = Some (JSValue 1) \<and> out ''b'' = None \<and> out ''c'' = None)"
proof -
  let ?inp = "[''a'' \<mapsto> JSValue (1::int), ''b'' \<mapsto> JSValue 2, ''c'' \<mapsto> JSUndefined]"
  have f1: "getOutputFields (example_node ENTRY []) = []"
    and f2: "getOutputFields (example_node MIDDLE [''a'', ''c'']) = [''a'', ''c'']"
    by (simp_all add: getOutputFields_def example_node_def)
  from NodeBase_call_echoes_or_projects [of "example_node ENTRY []" "[''x'' \<mapsto> JSValue 1]" emptyWorld] f1
  have one: "NodeBase_call (example_node ENTRY []) [''x'' \<mapsto> JSValue 1] emptyWorld
     = (Inr [''x'' \<mapsto> JSValue 1], emptyWorld)"
    by blast
  have ne: "getOutputFields (example_node MIDDLE [''a'', ''c'']) \<noteq> []"
    by (simp add: f2)
  from NodeBase_call_echoes_or_projects [of "example_node MIDDLE [''a'', ''c'']" ?inp emptyWorld] ne
  have "\<exists>out. NodeBase_call (example_node MIDDLE [''a'', ''c'']) ?inp emptyWorld = (Inr out, emptyWorld)
           \<and> (\<forall>key. (out key \<noteq> None) =
                    (key \<in> set (getOutputFields (example_node MIDDLE [''a'', ''c''])) \<and> prop_get ?inp key \<noteq> JSUndefined))
           \<and> (\<forall>key. out key \<noteq> None \<longrightarrow> out key = ?inp key)"
    by (rule conjunct2 [THEN mp])
  then obtain out where out: "NodeBase_call (example_node MIDDLE [''a'', ''c'']) ?inp emptyWorld = (Inr out, emptyWorld)"
    "\<forall>key. (out key \<noteq> None) = (key \<in> set [''a'', ''c''] \<and> prop_get ?inp key \<noteq> JSUndefined)"
    "\<forall>key. out key \<noteq> None \<longrightarrow> out key = ?inp key"
    unfolding f2 by blast
  from out(2) [rule_format, of "''a''"] have a: "out ''a'' \<noteq> None"
    by (simp add: prop_get_def)
  from out(2) [rule_format, of "''b''"] have b: "out ''b'' = None"
    by simp
  from out(2) [rule_format, of "''c''"] have c: "out ''c'' = None"
    by (simp add: prop_get_def)
  from out(3) [rule_format, OF a] b c
  have "out ''a'' = Some (JSValue 1) \<and> out ''b'' = None \<and> out ''c'' = None"
    by simp
  with one out(1) show ?thesis by blast
qed

section \<open>Properties of execute\<close>

text \<open>
  Claim C4. \<^verbatim>\<open>execute\<close> always returns a result, whatever the hooks and \<^verbatim>\<open>_call\<close> of the
  node class do. \<^verbatim>\<open>beforeExecute\<close> runs on the resolved input in the world \<^verbatim>\<open>resolveInput\<close>
  left, \<^verbatim>\<open>_call\<close> in the world \<^verbatim>\<open>beforeExecute\<close> left, \<^verbatim>\<open>publishOutput\<close> on the output of
  \<^verbatim>\<open>_call\<close>, and \<^verbatim>\<open>afterExecute\<close> after that, in the world \<^verbatim>\<open>_call\<close> left. The first step
  that throws ends the run: the result is FAILED with that error attached and no output,
  and the context is the initial one if the step came before \<^verbatim>\<open>publishOutput\<close> and the
  published one if it was \<^verbatim>\<open>afterExecute\<close>. If no step throws the result is COMPLETED with
  the output of \<^verbatim>\<open>_call\<close> attached and no error. (\<^verbatim>\<open>resolveInput\<close> and \<^verbatim>\<open>publishOutput\<close>
  have no failing branch.)
\<close>

theorem execute_captures_every_exception:
  "\<exists>result ctx' w'. execute cls node ctx w = (result, ctx', w') \<and> nodeId result = node_id node \<and>
     (case resolveInput node ctx w of
        (resolved, ctx1, w1) \<Rightarrow>
          (case beforeExecute cls node resolved w1 of
             (Inl e, w2) \<Rightarrow>
               status result = FAILED \<and> resultError result = Some e \<and> resultOutput result = None
               \<and> ctx' = ctx \<and> w' = w2
           | (Inr _, w2) \<Rightarrow>
               resultInput result = resolved \<and>
               (case call cls node resolved w2 of
                  (Inl e, w3) \<Rightarrow>
                    status result = FAILED \<and> resultError result = Some e
                    \<and> resultOutput result = None \<and> ctx' = ctx \<and> w' = w3
                | (Inr out, w3) \<Rightarrow>
                    ctx' = publishOutput node out ctx \<and>
                    (case afterExecute cls node out w3 of
                       (Inl e, w4) \<Rightarrow>
                         status result = FAILED \<and> resultError result = Some e
                         \<and> resultOutput result = None \<and> w' = w4
                     | (Inr _, w4) \<Rightarrow>
                         status result = COMPLETED \<and> resultOutput result = Some out
                         \<and> resultError result = None \<and> w' = w4))))"
proof -
  obtain resolved w1 where r: "resolveInput node ctx w = (resolved, ctx, w1)"
    by (simp add: resolveInput_eq)
  obtain b w2 where before: "beforeExecute cls node resolved w1 = (b, w2)"
    by (cases "beforeExecute cls node resolved w1")
  show ?thesis
  proof (cases b)
    case (Inl e)
    then show ?thesis
      by (simp add: execute_def execute_try_def r before)
  next
    case (Inr u)
    obtain c w3 where called: "call cls node resolved w2 = (c, w3)"
      by (cases "call cls node resolved w2")
    show ?thesis
    proof (cases c)
      case (Inl e)
      then show ?thesis
        by (simp add: execute_def execute_try_def r before Inr called)
    next
      case out: (Inr out)
      obtain a w4 where after: "afterExecute cls node out w3 = (a, w4)"
        by (cases "afterExecute cls node out w3")
      show ?thesis
        by (cases a) (simp_all add: execute_def execute_try_def r before Inr called out after)
    qed
  qed
qed

theorem execute_captures_every_exception_witness:
  "status (fst (execute UserInputNode example_entry_node example_entry_context emptyWorld)) = COMPLETED
   \<and> resultError (fst (execute UserInputNode example_entry_node example_entry_context emptyWorld)) = None
   \<and> resultOutput (fst (execute UserInputNode example_entry_node example_entry_context emptyWorld))
        = Some [''x'' \<mapsto> JSValue 1]
   \<and> console (snd (snd (execute UserInputNode example_entry_node example_entry_context emptyWorld)))
        = [MissingInput ''user-input-1'' ''y'', BeforeExecuteLog ''user-input-1'',
           AfterExecuteLog ''user-input-1'']
   \<and> status (fst (execute example_call_throws (example_publishing_node MIDDLE)
                     example_publishing_context emptyWorld)) = FAILED
   \<and> resultError (fst (execute example_call_throws (example_publishing_node MIDDLE)
                          example_publishing_context emptyWorld))
        = Some (Error ''System message is required for WorldBookNode'')
   \<and> fst (snd (execute example_call_throws (example_publishing_node MIDDLE)
                   example_publishing_context emptyWorld)) = example_publishing_context"
proof -
  have node: "example_entry_node =
     \<lparr>node_id = ''user-input-1'', node_name = ''userInput'', category = ENTRY, next_ids = [],
      toolClass = None,
      params = \<lparr>initParams = [''x'', ''y''], inputFields = [], outputFields = [],
                inputMapping = Map.empty\<rparr>\<rparr>"
    by (simp add: example_entry_node_def UserInputNode_constructor_def NodeBase_constructor_def
          initializeTools_def NodeToolRegistry_get_def example_entry_config_def orDefault_def
          UserInputNode_def)
  have resolved: "resolveInput example_entry_node example_entry_context emptyWorld =
      ([''x'' \<mapsto> JSValue 1], example_entry_context,
       \<lparr>console = [MissingInput ''user-input-1'' ''y''], env = ()\<rparr>)"
    unfolding node
    by (auto simp: resolveInput_eq getInitParams_def getInputFields_def
          missingInputDiagnostics_def cacheEntries_def hasInput_def example_entry_context_def
          emptyWorld_def restrict_map_def intro: ext)
  from execute_captures_every_exception
         [of UserInputNode example_entry_node example_entry_context emptyWorld]
  obtain result ctx' w' where
    run: "execute UserInputNode example_entry_node example_entry_context emptyWorld = (result, ctx', w')"
    and props: "status result = COMPLETED \<and> resultOutput result = Some [''x'' \<mapsto> JSValue 1]
                  \<and> resultError result = None
                  \<and> w' = \<lparr>console = [MissingInput ''user-input-1'' ''y'',
                         BeforeExecuteLog ''user-input-1'', AfterExecuteLog ''user-input-1''], env = ()\<rparr>"
    unfolding resolved
    by (auto simp: UserInputNode_def NodeBase_beforeExecute_def NodeBase_call_def
          NodeBase_afterExecute_def getOutputFields_def node console_emit_def)
  from execute_captures_every_exception
         [of example_call_throws "example_publishing_node MIDDLE" example_publishing_context emptyWorld]
  obtain result2 ctx2 w2 where
    run2: "execute example_call_throws (example_publishing_node MIDDLE)
             example_publishing_context emptyWorld = (result2, ctx2, w2)"
    and props2: "status result2 = FAILED
         \<and> resultError result2 = Some (Error ''System message is required for WorldBookNode'')
         \<and> ctx2 = example_publishing_context"
    by (auto simp: resolveInput_eq example_call_throws_def NodeBase_beforeExecute_def)
  from props props2 show ?thesis
    by (simp add: run run2)
qed

text \<open>
  Claim C9. A FAILED result does not mean an untouched context. The node class whose
  \<^verbatim>\<open>afterExecute\<close> throws, run on a node that declares \<^verbatim>\<open>initParams = ["a"]\<close> and
  \<^verbatim>\<open>outputFields = ["a"]\<close> and on run parameters \<^verbatim>\<open>{a: 1}\<close>, returns FAILED with the error
  attached, and \<^verbatim>\<open>a\<close> has been written all the same: to the cache for a MIDDLE node, to
  the output store for an EXIT node.
\<close>

theorem execute_failed_after_publish:
  "status (fst (execute example_afterExecute_throws (example_publishing_node MIDDLE)
                  example_publishing_context emptyWorld)) = FAILED
   \<and> resultError (fst (execute example_afterExecute_throws (example_publishing_node MIDDLE)
                          example_publishing_context emptyWorld))
        = Some (Error ''afterExecute failed'')
   \<and> cacheStore example_publishing_context ''a'' = None
   \<and> cacheStore (fst (snd (execute example_afterExecute_throws (example_publishing_node MIDDLE)
                               example_publishing_context emptyWorld))) ''a'' = Some (JSValue 1)
   \<and> status (fst (execute example_afterExecute_throws (example_publishing_node EXIT)
                  example_publishing_context emptyWorld)) = FAILED
   \<and> resultError (fst (execute example_afterExecute_throws (example_publishing_node EXIT)
                          example_publishing_context emptyWorld))
        = Some (Error ''afterExecute failed'')
   \<and> outputStore example_publishing_context ''a'' = None
   \<and> outputStore (fst (snd (execute example_afterExecute_throws (example_publishing_node EXIT)
                                example_publishing_context emptyWorld))) ''a'' = Some (JSValue 1)"
proof -
  have resolved: "\<And>cat. resolveInput (example_publishing_node cat) example_publishing_context emptyWorld
                   = ([''a'' \<mapsto> JSValue 1], example_publishing_context, emptyWorld)"
    by (auto simp: resolveInput_eq getInitParams_def getInputFields_def cacheEntries_def
          missingInputDiagnostics_def hasInput_def emptyWorld_def
          example_publishing_node_def example_publishing_context_def restrict_map_def intro: ext)
  have called: "\<And>cat w. NodeBase_call (example_publishing_node cat) [''a'' \<mapsto> JSValue 1] w
                   = (Inr [''a'' \<mapsto> JSValue 1], w)"
    by (simp add: NodeBase_call_def getOutputFields_def example_publishing_node_def prop_get_def)
  have published: "\<And>cat. publishOutput (example_publishing_node cat) [''a'' \<mapsto> JSValue 1] example_publishing_context
        = storeData (example_publishing_node cat) ''a'' (JSValue 1) example_publishing_context"
    by (simp add: publishOutput_def getOutputFields_def example_publishing_node_def prop_get_def)
  have run: "\<And>cat. execute example_afterExecute_throws (example_publishing_node cat)
        example_publishing_context emptyWorld =
       (\<lparr>nodeId = ''n2'', status = FAILED, resultInput = [''a'' \<mapsto> JSValue 1],
         resultOutput = None, resultError = Some (Error ''afterExecute failed'')\<rparr>,
        storeData (example_publishing_node cat) ''a'' (JSValue 1) example_publishing_context,
        console_emit (BeforeExecuteLog ''n2'') emptyWorld)"
    by (simp add: execute_def execute_try_def resolved called published
          example_afterExecute_throws_def NodeBase_beforeExecute_def)
       (simp add: example_publishing_node_def)
  show ?thesis
    unfolding run fst_conv snd_conv
    by (simp add: storeData_def setCache_def setOutput_def example_publishing_node_def
          example_publishing_context_def)
qed

section \<open>Properties of tool invocation and of construction\<close>

text \<open>
  Claim C6. \<^verbatim>\<open>executeMethod\<close> on a name under which the tool class has no function throws
  an error whose message holds the name and the tool type, after logging the failed
  lookup and the available methods. When the function exists and throws, the error goes
  through \<^verbatim>\<open>handleError\<close>, which logs it with the method name and throws it again: the
  call ends with that error and with the log entry of \<^verbatim>\<open>handleError\<close> on the console, and
  never with a value. The same holds when \<^verbatim>\<open>logExecution\<close> throws. When the function
  returns, \<^verbatim>\<open>executeMethod\<close> returns its value.
\<close>

theorem executeMethod_fails_loudly:
  "(\<not> isFunction (props tc methodName) \<longrightarrow>
      executeMethod tc methodName ps w =
        (Inl (Error (''Method '' @ methodName @ '' not found in '' @ getToolType tc @ ''Tool'')),
         w\<lparr>console := console w @ [MethodLookupFailed methodName,
                                    AvailableMethods (availableMethods tc)]\<rparr>))
   \<and> (\<forall>method u w0 e w1.
        props tc methodName = Some (Callable method)
        \<and> logExecution tc methodName ps w = (Inr u, w0) \<and> method ps w0 = (Inl e, w1) \<longrightarrow>
          executeMethod tc methodName ps w = (Inl e, snd (handleError tc e methodName w1))
        \<and> console (snd (executeMethod tc methodName ps w))
            = console w1 @ [HandledError (getToolType tc) e methodName])
   \<and> (\<forall>method e w0.
        props tc methodName = Some (Callable method)
        \<and> logExecution tc methodName ps w = (Inl e, w0) \<longrightarrow>
          executeMethod tc methodName ps w = (Inl e, snd (handleError tc e methodName w0)))
   \<and> (\<forall>method u w0 r w1.
        props tc methodName = Some (Callable method)
        \<and> logExecution tc methodName ps w = (Inr u, w0) \<and> method ps w0 = (Inr r, w1) \<longrightarrow>
          executeMethod tc methodName ps w = (Inr r, w1))"
proof -
  have absent: "\<not> isFunction (props tc methodName) \<longrightarrow>
      executeMethod tc methodName ps w =
        (Inl (Error (''Method '' @ methodName @ '' not found in '' @ getToolType tc @ ''Tool'')),
         w\<lparr>console := console w @ [MethodLookupFailed methodName,
                                    AvailableMethods (availableMethods tc)]\<rparr>)"
    by (simp add: executeMethod_def isFunction_def console_emit_def
             split: option.splits member.splits)
  have present: "\<And>method. props tc methodName = Some (Callable method) \<Longrightarrow>
      executeMethod tc methodName ps w =
        (case executeMethod_try tc method methodName ps w of
           (Inr r, w1) \<Rightarrow> (Inr r, w1)
         | (Inl e, w1) \<Rightarrow> (Inl e, snd (handleError tc e methodName w1)))"
    by (simp add: executeMethod_def handleError_def split: prod.splits sum.splits)
  show ?thesis
    using absent
    by (simp add: present executeMethod_try_def handleError_def console_emit_def)
qed

theorem executeMethod_fails_loudly_witness:
  "executeMethod example_WorldBookNodeTools ''summarize'' [] emptyWorld =
     (Inl (Error ''Method summarize not found in worldBookTool''),
      \<lparr>console = [MethodLookupFailed ''summarize'',
                  AvailableMethods [''assemblePromptWithWorldBook'']], env = ()\<rparr>)
   \<and> executeMethod example_WorldBookNodeTools ''version'' [] emptyWorld =
     (Inl (Error ''Method version not found in worldBookTool''),
      \<lparr>console = [MethodLookupFailed ''version'',
                  AvailableMethods [''assemblePromptWithWorldBook'']], env = ()\<rparr>)
   \<and> executeMethod example_WorldBookNodeTools ''assemblePromptWithWorldBook'' [] emptyWorld =
     (Inl (Error ''Character not found''),
      \<lparr>console = [HandledError ''worldBook'' (Error ''Character not found'')
                    ''assemblePromptWithWorldBook''], env = ()\<rparr>)"
proof -
  note inst = executeMethod_fails_loudly [where tc = example_WorldBookNodeTools and ps = "[]" and w = emptyWorld]
  have avail: "availableMethods example_WorldBookNodeTools = [''assemblePromptWithWorldBook'']"
    by (simp add: availableMethods_def isFunction_def example_WorldBookNodeTools_def)
  have "\<not> isFunction (props example_WorldBookNodeTools ''summarize'')"
    by (simp add: isFunction_def example_WorldBookNodeTools_def)
  with inst [where methodName = "''summarize''"]
  have one: "executeMethod example_WorldBookNodeTools ''summarize'' [] emptyWorld =
     (Inl (Error ''Method summarize not found in worldBookTool''),
      \<lparr>console = [MethodLookupFailed ''summarize'',
                  AvailableMethods [''assemblePromptWithWorldBook'']], env = ()\<rparr>)"
    by (simp add: avail getToolType_def) (simp add: example_WorldBookNodeTools_def emptyWorld_def)
  have "\<not> isFunction (props example_WorldBookNodeTools ''version'')"
    by (simp add: isFunction_def example_WorldBookNodeTools_def)
  with inst [where methodName = "''version''"]
  have two: "executeMethod example_WorldBookNodeTools ''version'' [] emptyWorld =
     (Inl (Error ''Method version not found in worldBookTool''),
      \<lparr>console = [MethodLookupFailed ''version'',
                  AvailableMethods [''assemblePromptWithWorldBook'']], env = ()\<rparr>)"
    by (simp add: avail getToolType_def) (simp add: example_WorldBookNodeTools_def emptyWorld_def)
  have p: "props example_WorldBookNodeTools ''assemblePromptWithWorldBook''
             = Some (Callable (\<lambda>ps w. (Inl (Error ''Character not found''), w)))"
    and l: "logExecution example_WorldBookNodeTools ''assemblePromptWithWorldBook'' [] emptyWorld
             = (Inr (), emptyWorld)"
    by (simp_all add: example_WorldBookNodeTools_def)
  from inst [where methodName = "''assemblePromptWithWorldBook''", THEN conjunct2, THEN conjunct1,
             rule_format, of "\<lambda>ps w. (Inl (Error ''Character not found''), w)" "()" emptyWorld
               "Error ''Character not found''" emptyWorld]
    p l
  have three: "executeMethod example_WorldBookNodeTools ''assemblePromptWithWorldBook'' [] emptyWorld =
     (Inl (Error ''Character not found''),
      \<lparr>console = [HandledError ''worldBook'' (Error ''Character not found'')
                    ''assemblePromptWithWorldBook''], env = ()\<rparr>)"
    by (simp add: handleError_def console_emit_def getToolType_def)
       (simp add: example_WorldBookNodeTools_def emptyWorld_def)
  from one two three show ?thesis by blast
qed

text \<open>
  Claim C10, as amended. When the registry has no tool class under the name of the
  configuration, the constructor of \<^verbatim>\<open>NodeBase\<close> succeeds, prints one warning and leaves
  the node without a tool class. On every node that has no tool class bound, every call
  of \<^verbatim>\<open>executeTool\<close> throws the error \<^verbatim>\<open>No tool class available for node type: <name>\<close> and
  touches nothing else: no method is looked up. The witness is the \<^verbatim>\<open>UserInputNode\<close> of the
  dialogue workflow.
\<close>

theorem executeTool_without_toolClass:
  "(NodeToolRegistry_get registry (config_name config) = Inr None \<longrightarrow>
      (\<exists>node w'. NodeBase_constructor cls config registry w = (node, w')
         \<and> getName node = config_name config
         \<and> toolClass node = None
         \<and> console w' = console w @ [ToolClassNotFound (config_name config)]
         \<and> env w' = env w))
   \<and> (\<forall>node :: ('v, 's) NodeBase. toolClass node = None \<longrightarrow>
        (\<forall>methodName ps w2.
           executeTool node methodName ps w2 =
             (Inl (Error (''No tool class available for node type: '' @ getName node)), w2)))"
  by (simp add: NodeBase_constructor_def initializeTools_def getName_def executeTool_def
        console_emit_def)

theorem executeTool_without_toolClass_witness:
  "NodeToolRegistry_get (Map.empty :: (int, unit) registry) (config_name example_entry_config) = Inr None
   \<and> toolClass example_entry_node = None
   \<and> console (snd (UserInputNode_constructor example_entry_config Map.empty emptyWorld
                     :: (int, unit) NodeBase \<times> unit world))
       = [ToolClassNotFound ''userInput'']
   \<and> executeTool example_entry_node ''assemblePromptWithWorldBook'' [] emptyWorld
       = (Inl (Error ''No tool class available for node type: userInput''), emptyWorld)"
proof -
  have reg: "NodeToolRegistry_get (Map.empty :: (int, unit) registry) (config_name example_entry_config) = Inr None"
    by (simp add: NodeToolRegistry_get_def)
  note inst = executeTool_without_toolClass
                [where registry = "Map.empty :: (int, unit) registry" and config = example_entry_config
                   and cls = UserInputNode and w = emptyWorld]
  from inst reg obtain node w' where
    built: "NodeBase_constructor UserInputNode example_entry_config (Map.empty :: (int, unit) registry) emptyWorld = (node, w')"
    and name: "getName node = config_name example_entry_config"
    and unbound: "toolClass node = None"
    and warned: "console w' = console emptyWorld @ [ToolClassNotFound (config_name example_entry_config)]"
    by blast
  have node: "example_entry_node = node"
    by (simp add: example_entry_node_def UserInputNode_constructor_def built)
  from inst unbound
  have "executeTool node ''assemblePromptWithWorldBook'' [] emptyWorld
       = (Inl (Error (''No tool class available for node type: '' @ getName node)), emptyWorld)"
    by blast
  then have tool: "executeTool example_entry_node ''assemblePromptWithWorldBook'' [] emptyWorld
       = (Inl (Error ''No tool class available for node type: userInput''), emptyWorld)"
    by (simp add: node name example_entry_config_def)
  have warning: "console (snd (UserInputNode_constructor example_entry_config Map.empty emptyWorld
                     :: (int, unit) NodeBase \<times> unit world)) = [ToolClassNotFound ''userInput'']"
    unfolding UserInputNode_constructor_def built snd_conv
    using warned by (simp add: example_entry_config_def emptyWorld_def)
  from reg unbound tool warning show ?thesis
    by (simp add: node)
qed

text \<open>
  Claim C10 as it was stated fails for a node whose class binds its tool class itself. A
  \<^verbatim>\<open>WorldBookNode\<close> built from a configuration named \<^verbatim>\<open>wb\<close> finds no tool class under that
  name (its own constructor registered \<^verbatim>\<open>WorldBookNodeTools\<close> under the tool type
  \<^verbatim>\<open>worldBook\<close>) and prints the warning; its constructor then sets \<^verbatim>\<open>toolClass\<close>, so that
  \<^verbatim>\<open>executeTool\<close> does go on to the method lookup, which for the data member \<^verbatim>\<open>version\<close> ends
  in the error of \<^verbatim>\<open>executeMethod\<close>, not in the one of \<^verbatim>\<open>executeTool\<close>.
\<close>

theorem executeTool_bound_by_subclass_counterexample:
  "NodeToolRegistry_get
     (NodeToolRegistry_register example_WorldBookNodeTools Map.empty)
     (config_name example_worldBook_config) = Inr None
   \<and> fst (snd (WorldBookNode_constructor example_WorldBookNodeTools example_worldBook_call
                 example_worldBook_config Map.empty emptyWorld))
       = NodeToolRegistry_register example_WorldBookNodeTools Map.empty
   \<and> console (snd (snd (WorldBookNode_constructor example_WorldBookNodeTools example_worldBook_call
                           example_worldBook_config Map.empty emptyWorld)))
       = [ToolClassNotFound ''wb'']
   \<and> fst (executeTool
            (fst (WorldBookNode_constructor example_WorldBookNodeTools example_worldBook_call
                    example_worldBook_config Map.empty emptyWorld))
            ''version'' [] emptyWorld)
       = Inl (Error ''Method version not found in worldBookTool'')
   \<and> fst (executeTool
            (fst (WorldBookNode_constructor example_WorldBookNodeTools example_worldBook_call
                    example_worldBook_config Map.empty emptyWorld))
            ''version'' [] emptyWorld)
       \<noteq> Inl (Error ''No tool class available for node type: wb'')"
proof -
  have reg: "NodeToolRegistry_get
     (NodeToolRegistry_register example_WorldBookNodeTools Map.empty)
     (config_name example_worldBook_config) = Inr None"
    by (simp add: NodeToolRegistry_get_def NodeToolRegistry_register_def getToolType_def
          example_WorldBookNodeTools_def example_worldBook_config_def)
  have built: "WorldBookNode_constructor example_WorldBookNodeTools example_worldBook_call
                 example_worldBook_config Map.empty emptyWorld =
      (\<lparr>node_id = ''world-book-1'', node_name = ''wb'', category = MIDDLE,
        next_ids = [''llm-1''], toolClass = Some example_WorldBookNodeTools,
        params = \<lparr>initParams = [], inputFields = [''systemMessage'', ''userInput''],
                  outputFields = [''systemMessage'', ''userMessage''],
                  inputMapping = [''userInput'' \<mapsto> ''currentUserInput'']\<rparr>\<rparr>,
       NodeToolRegistry_register example_WorldBookNodeTools Map.empty,
       \<lparr>console = [ToolClassNotFound ''wb''], env = ()\<rparr>)"
    using reg
    by (simp add: WorldBookNode_constructor_def NodeBase_constructor_def initializeTools_def
          getName_def WorldBookNode_def orDefault_def console_emit_def emptyWorld_def
          example_worldBook_config_def)
  have run: "fst (executeTool
            (fst (WorldBookNode_constructor example_WorldBookNodeTools example_worldBook_call
                    example_worldBook_config Map.empty emptyWorld))
            ''version'' [] emptyWorld)
       = Inl (Error ''Method version not found in worldBookTool'')"
    unfolding built fst_conv
    by (simp add: executeTool_def executeMethod_def getToolType_def example_WorldBookNodeTools_def)
  show ?thesis
    unfolding run
    using reg by (simp add: built)
qed

end
